theory Spec2Isabelle
  imports Complex_Main
begin

section \<open>JavaScript numbers\<close>

text \<open>
  The services compute with JavaScript numbers (IEEE binary64). A finite number is
  modelled by the real it denotes, and the operations on finite numbers are exact: the
  model has no rounding, no overflow to infinity and no underflow, and it has one zero,
  \<open>Num 0\<close>, which divides like the positive zero. The three special values of IEEE
  arithmetic are kept, because the code divides by prices and notionals that may be zero
  or infinite and compares the result afterwards. Every comparison with \<open>NaN\<close> is
  false, as in JavaScript. A property that holds only by an exact cancellation, such as
  \<open>(x / p) * p = x\<close>, is a property of this model and not of the code; none is stated
  below.
\<close>

datatype jsnum = Num real | PosInf | NegInf | NaN

fun js_neg :: "jsnum \<Rightarrow> jsnum" where
  "js_neg (Num a) = Num (- a)"
| "js_neg PosInf = NegInf"
| "js_neg NegInf = PosInf"
| "js_neg NaN = NaN"

fun js_add :: "jsnum \<Rightarrow> jsnum \<Rightarrow> jsnum" where
  "js_add (Num a) (Num b) = Num (a + b)"
| "js_add NaN _ = NaN"
| "js_add _ NaN = NaN"
| "js_add PosInf NegInf = NaN"
| "js_add NegInf PosInf = NaN"
| "js_add PosInf _ = PosInf"
| "js_add _ PosInf = PosInf"
| "js_add NegInf _ = NegInf"
| "js_add _ NegInf = NegInf"

definition js_sub :: "jsnum \<Rightarrow> jsnum \<Rightarrow> jsnum" where
  "js_sub a b = js_add a (js_neg b)"

fun js_mul :: "jsnum \<Rightarrow> jsnum \<Rightarrow> jsnum" where
  "js_mul (Num a) (Num b) = Num (a * b)"
| "js_mul NaN _ = NaN"
| "js_mul _ NaN = NaN"
| "js_mul PosInf (Num b) = (if b = 0 then NaN else if 0 < b then PosInf else NegInf)"
| "js_mul NegInf (Num b) = (if b = 0 then NaN else if 0 < b then NegInf else PosInf)"
| "js_mul (Num a) PosInf = (if a = 0 then NaN else if 0 < a then PosInf else NegInf)"
| "js_mul (Num a) NegInf = (if a = 0 then NaN else if 0 < a then NegInf else PosInf)"
| "js_mul PosInf PosInf = PosInf"
| "js_mul PosInf NegInf = NegInf"
| "js_mul NegInf PosInf = NegInf"
| "js_mul NegInf NegInf = PosInf"

fun js_div :: "jsnum \<Rightarrow> jsnum \<Rightarrow> jsnum" where
  "js_div (Num a) (Num b) =
     (if b = 0 then (if a = 0 then NaN else if 0 < a then PosInf else NegInf)
      else Num (a / b))"
| "js_div NaN _ = NaN"
| "js_div _ NaN = NaN"
| "js_div (Num a) PosInf = Num 0"
| "js_div (Num a) NegInf = Num 0"
| "js_div PosInf (Num b) = (if 0 \<le> b then PosInf else NegInf)"
| "js_div NegInf (Num b) = (if 0 \<le> b then NegInf else PosInf)"
| "js_div PosInf PosInf = NaN"
| "js_div PosInf NegInf = NaN"
| "js_div NegInf PosInf = NaN"
| "js_div NegInf NegInf = NaN"

fun js_lt :: "jsnum \<Rightarrow> jsnum \<Rightarrow> bool" where
  "js_lt (Num a) (Num b) = (a < b)"
| "js_lt NaN _ = False"
| "js_lt _ NaN = False"
| "js_lt (Num a) PosInf = True"
| "js_lt (Num a) NegInf = False"
| "js_lt PosInf _ = False"
| "js_lt NegInf NegInf = False"
| "js_lt NegInf _ = True"

fun js_le :: "jsnum \<Rightarrow> jsnum \<Rightarrow> bool" where
  "js_le (Num a) (Num b) = (a \<le> b)"
| "js_le NaN _ = False"
| "js_le _ NaN = False"
| "js_le (Num a) PosInf = True"
| "js_le (Num a) NegInf = False"
| "js_le PosInf PosInf = True"
| "js_le PosInf _ = False"
| "js_le NegInf _ = True"

definition js_gt :: "jsnum \<Rightarrow> jsnum \<Rightarrow> bool" where
  "js_gt a b = js_lt b a"

definition js_ge :: "jsnum \<Rightarrow> jsnum \<Rightarrow> bool" where
  "js_ge a b = js_le b a"

fun js_abs :: "jsnum \<Rightarrow> jsnum" where
  "js_abs (Num a) = Num \<bar>a\<bar>"
| "js_abs PosInf = PosInf"
| "js_abs NegInf = PosInf"
| "js_abs NaN = NaN"

text \<open>
  \<open>Math.min\<close> and \<open>Math.max\<close> of two numbers: \<open>NaN\<close> if either is, the smaller
  (larger) one otherwise.
\<close>

definition js_min :: "jsnum \<Rightarrow> jsnum \<Rightarrow> jsnum" where
  "js_min a b = (if a = NaN \<or> b = NaN then NaN else if js_le a b then a else b)"

definition js_max :: "jsnum \<Rightarrow> jsnum \<Rightarrow> jsnum" where
  "js_max a b = (if a = NaN \<or> b = NaN then NaN else if js_le b a then a else b)"

section \<open>Configuration (config/config.js)\<close>

record dex_config =
  fee :: real

record config =
  dexes :: "string \<rightharpoonup> dex_config"
  gasLimit :: int
  minProfitUSD :: real
  maxSlippagePercent :: real
  slippageTolerancePercent :: real
  maxTransactionValue :: real
  gasBufferPercent :: real
  opportunityTimeoutMs :: int
  maxDailyLoss :: real
  maxConsecutiveFailures :: int
  circuitBreakerTimeoutMs :: int
  minLiquidityUSD :: real

definition default_dexes :: "string \<rightharpoonup> dex_config" where
  "default_dexes =
     [''uniswap'' \<mapsto> \<lparr>fee = 3 / 1000\<rparr>,
      ''sushiswap'' \<mapsto> \<lparr>fee = 3 / 1000\<rparr>,
      ''pancakeswap'' \<mapsto> \<lparr>fee = 25 / 10000\<rparr>]"

definition default_config :: config where
  "default_config =
     \<lparr>dexes = default_dexes,
      gasLimit = 300000,
      minProfitUSD = 10,
      maxSlippagePercent = 5,
      slippageTolerancePercent = 3,
      maxTransactionValue = 10000,
      gasBufferPercent = 20,
      opportunityTimeoutMs = 30000,
      maxDailyLoss = 1000,
      maxConsecutiveFailures = 5,
      circuitBreakerTimeoutMs = 300000,
      minLiquidityUSD = 50000\<rparr>"

section \<open>RiskManager (services/RiskManager.js)\<close>

text \<open>
  The fields of the class. \<open>Date.now()\<close> is an integer number of milliseconds and
  \<open>new Date().toDateString()\<close> a string; both are read from the clock by the methods
  and are passed to the model as arguments.
\<close>

record risk_manager =
  circuitBreakerOpen :: bool
  circuitBreakerOpenTime :: int
  consecutiveFailures :: int
  dailyLoss :: jsnum
  lastResetDate :: string
  tradingPaused :: bool

definition new_RiskManager :: "string \<Rightarrow> risk_manager" where
  "new_RiskManager today =
     \<lparr>circuitBreakerOpen = False,
      circuitBreakerOpenTime = 0,
      consecutiveFailures = 0,
      dailyLoss = Num 0,
      lastResetDate = today,
      tradingPaused = False\<rparr>"

text \<open>
  \<open>canTrade\<close> returns its verdict together with the updated fields. The order of the
  checks is the order of the source: manual pause, circuit breaker (with its lazy reset),
  daily loss limit, and only then the reset of the daily metrics on a new day.
\<close>

definition canTrade :: "config \<Rightarrow> int \<Rightarrow> string \<Rightarrow> risk_manager \<Rightarrow> bool \<times> risk_manager" where
  "canTrade cfg now currentDate rm =
     (if tradingPaused rm then (False, rm)
      else if circuitBreakerOpen rm
              \<and> now - circuitBreakerOpenTime rm < circuitBreakerTimeoutMs cfg then (False, rm)
      else
        let rm1 = (if circuitBreakerOpen rm
                   then rm\<lparr>circuitBreakerOpen := False, consecutiveFailures := 0\<rparr>
                   else rm)
        in if js_ge (dailyLoss rm1) (Num (maxDailyLoss cfg)) then (False, rm1)
           else if currentDate \<noteq> lastResetDate rm1
                then (True, rm1\<lparr>dailyLoss := Num 0, lastResetDate := currentDate\<rparr>)
                else (True, rm1))"

text \<open>
  \<open>recordFailure\<close>: the insert into the metrics table is wrapped in its own
  \<open>try/catch\<close> and does not touch the fields.
\<close>

definition recordFailure :: "config \<Rightarrow> int \<Rightarrow> risk_manager \<Rightarrow> risk_manager" where
  "recordFailure cfg now rm =
     (let rm1 = rm\<lparr>consecutiveFailures := consecutiveFailures rm + 1\<rparr>
      in if consecutiveFailures rm1 \<ge> maxConsecutiveFailures cfg
         then rm1\<lparr>circuitBreakerOpen := True, circuitBreakerOpenTime := now\<rparr>
         else rm1)"

definition recordSuccess :: "risk_manager \<Rightarrow> risk_manager" where
  "recordSuccess rm = rm\<lparr>consecutiveFailures := 0\<rparr>"

definition recordLoss :: "jsnum \<Rightarrow> risk_manager \<Rightarrow> risk_manager" where
  "recordLoss amount rm = rm\<lparr>dailyLoss := js_add (dailyLoss rm) (js_abs amount)\<rparr>"

definition pauseTrading :: "risk_manager \<Rightarrow> risk_manager" where
  "pauseTrading rm = rm\<lparr>tradingPaused := True\<rparr>"

definition resumeTrading :: "risk_manager \<Rightarrow> risk_manager" where
  "resumeTrading rm = rm\<lparr>tradingPaused := False\<rparr>"

text \<open>
  \<open>loadDailyMetrics\<close>: the query fails or has no row (\<open>None\<close>), or it yields the day's
  loss; \<open>parseFloat(...) || 0\<close> replaces \<open>NaN\<close> and zero by \<open>0\<close>.
\<close>

definition loadDailyMetrics :: "jsnum option \<Rightarrow> risk_manager \<Rightarrow> risk_manager" where
  "loadDailyMetrics row rm =
     (case row of
        None \<Rightarrow> rm
      | Some v \<Rightarrow> rm\<lparr>dailyLoss := (if v = NaN \<or> v = Num 0 then Num 0 else v)\<rparr>)"

text \<open>
  \<open>getRiskMetrics\<close> reads the fields and then calls \<open>canTrade\<close>, whose body has no
  \<open>await\<close> and so runs to its end at once: the report shows the fields as they were
  before the call, and the verdict of \<open>canTrade\<close> (held by the promise it returns).
\<close>

record risk_metrics =
  reportedBreakerOpen :: bool
  reportedFailures :: int
  reportedDailyLoss :: jsnum
  reportedMaxDailyLoss :: real
  reportedPaused :: bool
  reportedCanTrade :: bool

definition getRiskMetrics ::
  "config \<Rightarrow> int \<Rightarrow> string \<Rightarrow> risk_manager \<Rightarrow> risk_metrics \<times> risk_manager" where
  "getRiskMetrics cfg now currentDate rm =
     (\<lparr>reportedBreakerOpen = circuitBreakerOpen rm,
       reportedFailures = consecutiveFailures rm,
       reportedDailyLoss = dailyLoss rm,
       reportedMaxDailyLoss = maxDailyLoss cfg,
       reportedPaused = tradingPaused rm,
       reportedCanTrade = fst (canTrade cfg now currentDate rm)\<rparr>,
      snd (canTrade cfg now currentDate rm))"

text \<open>
  The calls that write the fields without going through \<open>canTrade\<close>, as one step
  function.
\<close>

datatype rm_call =
    RecordFailure int
  | RecordSuccess
  | RecordLoss jsnum
  | PauseTrading
  | ResumeTrading
  | LoadDailyMetrics "jsnum option"

fun rm_step :: "config \<Rightarrow> rm_call \<Rightarrow> risk_manager \<Rightarrow> risk_manager" where
  "rm_step cfg (RecordFailure now) rm = recordFailure cfg now rm"
| "rm_step cfg RecordSuccess rm = recordSuccess rm"
| "rm_step cfg (RecordLoss amount) rm = recordLoss amount rm"
| "rm_step cfg PauseTrading rm = pauseTrading rm"
| "rm_step cfg ResumeTrading rm = resumeTrading rm"
| "rm_step cfg (LoadDailyMetrics row) rm = loadDailyMetrics row rm"

text \<open>
  A run of consecutive \<open>recordFailure\<close> calls, one per clock reading, oldest first.
\<close>

fun recordFailures :: "config \<Rightarrow> int list \<Rightarrow> risk_manager \<Rightarrow> risk_manager" where
  "recordFailures cfg [] rm = rm"
| "recordFailures cfg (t # ts) rm = recordFailures cfg ts (recordFailure cfg t rm)"

section \<open>ProfitCalculator (services/ProfitCalculator.js)\<close>

text \<open>
  An opportunity as \<open>createOpportunity\<close> builds it. The profit analysis is a second
  object; \<open>processOpportunity\<close> merges the two (\<open>{...opportunity, ...profitAnalysis}\<close>),
  which is modelled by the pair \<open>enhanced_opportunity\<close>.
\<close>

record opportunity =
  id_opp :: string
  tokenPair :: string
  buyDEX :: string
  sellDEX :: string
  buyPrice :: jsnum
  sellPrice :: jsnum
  amount :: jsnum
  priceDifference :: jsnum
  priceDifferencePercent :: jsnum
  timestamp :: int

record profit_breakdown =
  buyAmount :: jsnum
  sellAmount :: jsnum
  buyFee :: jsnum
  sellFee :: jsnum
  gasEstimateGwei :: real

record profit_analysis =
  grossProfit :: jsnum
  gasEstimate :: jsnum
  platformFees :: jsnum
  slippageImpact :: jsnum
  netProfit :: jsnum
  profitMargin :: jsnum
  profitable :: bool
  breakdown :: profit_breakdown

record enhanced_opportunity =
  opp :: opportunity
  analysis :: profit_analysis

text \<open>The fields of the calculator: the cached gas price (\<open>null\<close> at first) and its age.\<close>

record profit_calculator =
  gasPrice :: "int option"
  lastGasPriceUpdate :: int

definition new_ProfitCalculator :: profit_calculator where
  "new_ProfitCalculator = \<lparr>gasPrice = None, lastGasPriceUpdate = 0\<rparr>"

definition gasPriceUpdateInterval :: int where
  "gasPriceUpdateInterval = 30000"

text \<open>
  What the outside world answers during one \<open>calculateNetProfit\<close>: the clock, the RPC
  provider's fee data (\<open>None\<close>: the call throws), the ETH price API (\<open>None\<close>: the request
  fails) and the two slippage percentages of the price fetcher (\<open>None\<close>: the \<open>try\<close>
  block of \<open>calculateSlippageImpact\<close> throws).
\<close>

record fee_data =
  fd_gasPrice :: "int option"
  maxFeePerGas :: "int option"

record feeds =
  clock :: int
  feeData :: "fee_data option"
  ethPrice :: "jsnum option"
  slippagePercents :: "(jsnum \<times> jsnum) option"

datatype error = TypeError

text \<open>\<open>a || d\<close> on a nullable big integer: \<open>null\<close> and \<open>0n\<close> are falsy.\<close>

definition or_else :: "int option \<Rightarrow> int \<Rightarrow> int" where
  "or_else a d = (case a of None \<Rightarrow> d | Some g \<Rightarrow> if g = 0 then d else g)"

definition updateGasPrice :: "int \<Rightarrow> fee_data option \<Rightarrow> profit_calculator \<Rightarrow> profit_calculator" where
  "updateGasPrice now fd pc =
     (if now - lastGasPriceUpdate pc < gasPriceUpdateInterval then pc
      else case fd of
             None \<Rightarrow> pc
           | Some f \<Rightarrow>
               pc\<lparr>gasPrice := Some (or_else (fd_gasPrice f) (or_else (maxFeePerGas f) 20000000000)),
                  lastGasPriceUpdate := now\<rparr>)"

definition getETHPriceUSD :: "jsnum option \<Rightarrow> jsnum" where
  "getETHPriceUSD feed = (case feed of None \<Rightarrow> Num 2000 | Some p \<Rightarrow> p)"

text \<open>
  \<open>estimateGasFees\<close>: the gas limit with its buffer, times the gas price in wei (20 gwei
  when none is cached), converted to ether and then to USD. With a numeric configuration
  nothing in the \<open>try\<close> block throws, so the fallback of 50 USD is not reached.
\<close>

definition estimateGasFees :: "config \<Rightarrow> profit_calculator \<Rightarrow> jsnum option \<Rightarrow> jsnum" where
  "estimateGasFees cfg pc feed =
     (let gasLimit' = \<lfloor>real_of_int (gasLimit cfg) * (1 + gasBufferPercent cfg / 100)\<rfloor>;
          gasCost = gasLimit' * or_else (gasPrice pc) 20000000000;
          ethPriceUSD = getETHPriceUSD feed;
          gasCostETH = Num (real_of_int gasCost / 10 ^ 18)
      in js_mul gasCostETH ethPriceUSD)"

definition calculatePlatformFees :: "config \<Rightarrow> jsnum \<Rightarrow> jsnum \<Rightarrow> string \<Rightarrow> string \<Rightarrow> jsnum" where
  "calculatePlatformFees cfg buyAmount' sellAmount' buyDEX' sellDEX' =
     (case (dexes cfg buyDEX', dexes cfg sellDEX') of
        (Some buyDEXConfig, Some sellDEXConfig) \<Rightarrow>
          js_add (js_mul buyAmount' (Num (fee buyDEXConfig)))
                 (js_mul sellAmount' (Num (fee sellDEXConfig)))
      | _ \<Rightarrow> js_mul (js_add buyAmount' sellAmount') (Num (3 / 1000)))"

definition calculateSlippageImpact :: "config \<Rightarrow> (jsnum \<times> jsnum) option \<Rightarrow> opportunity \<Rightarrow> jsnum" where
  "calculateSlippageImpact cfg slip opp' =
     (case slip of
        Some (buySlippage, sellSlippage) \<Rightarrow>
          js_mul (js_mul (buyPrice opp') (amount opp'))
                 (js_div (js_add buySlippage sellSlippage) (Num 100))
      | None \<Rightarrow>
          js_mul (js_mul (buyPrice opp') (amount opp'))
                 (Num (slippageTolerancePercent cfg / 100)))"

text \<open>
  \<open>calculateNetProfit\<close>. The object literal it returns reads \<open>config.dexes[buyDEX].fee\<close>
  and \<open>config.dexes[sellDEX].fee\<close> without a guard: for a DEX that is not configured
  this is a property read on \<open>undefined\<close>, a \<open>TypeError\<close>, which the \<open>catch\<close> block
  logs and throws again. The gas price cache has been refreshed by then.
\<close>

definition calculateNetProfit ::
  "config \<Rightarrow> feeds \<Rightarrow> profit_calculator \<Rightarrow> opportunity \<Rightarrow> profit_calculator \<times> (error + profit_analysis)" where
  "calculateNetProfit cfg env pc opp' =
     (let grossProfit' = js_mul (js_sub (sellPrice opp') (buyPrice opp')) (amount opp');
          pc1 = updateGasPrice (clock env) (feeData env) pc;
          gasEstimate' = estimateGasFees cfg pc1 (ethPrice env);
          platformFees' = calculatePlatformFees cfg
             (js_mul (buyPrice opp') (amount opp')) (js_mul (sellPrice opp') (amount opp'))
             (buyDEX opp') (sellDEX opp');
          slippageImpact' = calculateSlippageImpact cfg (slippagePercents env) opp';
          netProfit' = js_sub (js_sub (js_sub grossProfit' gasEstimate') platformFees') slippageImpact';
          profitMargin' = (if js_gt netProfit' (Num 0)
                           then js_mul (js_div netProfit' (js_mul (buyPrice opp') (amount opp'))) (Num 100)
                           else Num 0)
      in (pc1,
          case (dexes cfg (buyDEX opp'), dexes cfg (sellDEX opp')) of
            (Some buyDEXConfig, Some sellDEXConfig) \<Rightarrow>
              Inr \<lparr>grossProfit = grossProfit',
                   gasEstimate = gasEstimate',
                   platformFees = platformFees',
                   slippageImpact = slippageImpact',
                   netProfit = netProfit',
                   profitMargin = profitMargin',
                   profitable = js_ge netProfit' (Num (minProfitUSD cfg)),
                   breakdown =
                     \<lparr>buyAmount = js_mul (buyPrice opp') (amount opp'),
                      sellAmount = js_mul (sellPrice opp') (amount opp'),
                      buyFee = js_mul (js_mul (buyPrice opp') (amount opp')) (Num (fee buyDEXConfig)),
                      sellFee = js_mul (js_mul (sellPrice opp') (amount opp')) (Num (fee sellDEXConfig)),
                      gasEstimateGwei = real_of_int (or_else (gasPrice pc1) 0) / 10 ^ 9\<rparr>\<rparr>
          | _ \<Rightarrow> Inl TypeError))"

definition calculateMinimumProfitThreshold :: "config \<Rightarrow> jsnum \<Rightarrow> jsnum \<Rightarrow> jsnum" where
  "calculateMinimumProfitThreshold cfg amount' tokenPrice =
     (let transactionValueUSD = js_mul amount' tokenPrice;
          baseMinProfit = Num (minProfitUSD cfg)
      in js_max baseMinProfit (js_mul transactionValueUSD (Num (5 / 1000))))"

section \<open>RiskManager: validation of an opportunity\<close>

text \<open>
  Each check returns \<open>passed\<close> and a reason for the debug log; the reason is kept as
  the name of the check. The checks are listed in the order of the source array.
\<close>

datatype check = ProfitThreshold | SlippageTolerance | LiquidityRequirements | TransactionValue | TokenSafety

record check_result =
  passed :: bool
  reason :: check

definition checkProfitThreshold :: "config \<Rightarrow> enhanced_opportunity \<Rightarrow> check_result" where
  "checkProfitThreshold cfg e =
     \<lparr>passed = js_ge (netProfit (analysis e)) (Num (minProfitUSD cfg)), reason = ProfitThreshold\<rparr>"

definition checkSlippageTolerance :: "config \<Rightarrow> enhanced_opportunity \<Rightarrow> check_result" where
  "checkSlippageTolerance cfg e =
     (let estimatedSlippage =
            js_mul (js_div (slippageImpact (analysis e))
                           (js_mul (buyPrice (opp e)) (amount (opp e)))) (Num 100)
      in \<lparr>passed = js_le estimatedSlippage (Num (maxSlippagePercent cfg)),
           reason = SlippageTolerance\<rparr>)"

definition checkLiquidityRequirements :: "config \<Rightarrow> enhanced_opportunity \<Rightarrow> check_result" where
  "checkLiquidityRequirements cfg e =
     (let transactionValue = js_mul (buyPrice (opp e)) (amount (opp e))
      in \<lparr>passed = js_le transactionValue (Num (minLiquidityUSD cfg * (1 / 10))),
           reason = LiquidityRequirements\<rparr>)"

definition checkTransactionValue :: "config \<Rightarrow> enhanced_opportunity \<Rightarrow> check_result" where
  "checkTransactionValue cfg e =
     (let transactionValue = js_mul (buyPrice (opp e)) (amount (opp e))
      in \<lparr>passed = js_le transactionValue (Num (maxTransactionValue cfg)),
           reason = TransactionValue\<rparr>)"

text \<open>The source: "Implement token safety checks (blacklist, ...). For now, return true".\<close>

definition checkTokenSafety :: "enhanced_opportunity \<Rightarrow> check_result" where
  "checkTokenSafety e = \<lparr>passed = True, reason = TokenSafety\<rparr>"

definition validations :: "config \<Rightarrow> enhanced_opportunity \<Rightarrow> check_result list" where
  "validations cfg e =
     [checkProfitThreshold cfg e,
      checkSlippageTolerance cfg e,
      checkLiquidityRequirements cfg e,
      checkTransactionValue cfg e,
      checkTokenSafety e]"

definition failedChecks :: "config \<Rightarrow> enhanced_opportunity \<Rightarrow> check list" where
  "failedChecks cfg e = map reason (filter (\<lambda>r. \<not> passed r) (validations cfg e))"

definition validateOpportunity :: "config \<Rightarrow> enhanced_opportunity \<Rightarrow> bool" where
  "validateOpportunity cfg e = list_all passed (validations cfg e)"

text \<open>
  The specification's token-safety check, for comparison with \<open>checkTokenSafety\<close>: an
  opportunity is safe when neither leg of its token pair (the two names around the
  \<open>/\<close>) is on the blacklist.
\<close>

definition legs :: "string \<Rightarrow> string \<times> string" where
  "legs tp = (takeWhile (\<lambda>c. c \<noteq> CHR ''/'') tp, drop 1 (dropWhile (\<lambda>c. c \<noteq> CHR ''/'') tp))"

definition spec_token_safe :: "string list \<Rightarrow> enhanced_opportunity \<Rightarrow> bool" where
  "spec_token_safe blacklist e =
     (fst (legs (tokenPair (opp e))) \<notin> set blacklist \<and> snd (legs (tokenPair (opp e))) \<notin> set blacklist)"

section \<open>ArbitrageEngine (services/ArbitrageEngine.js)\<close>

subsection \<open>Detector\<close>

text \<open>Decimal rendering of \<open>Date.now()\<close> inside an opportunity id.\<close>

fun show_nat :: "nat \<Rightarrow> string" where
  "show_nat n =
     (if n < 10 then [''0123456789'' ! n]
      else show_nat (n div 10) @ [''0123456789'' ! (n mod 10)])"

definition show_int :: "int \<Rightarrow> string" where
  "show_int i = (if i < 0 then ''-'' @ show_nat (nat (- i)) else show_nat (nat i))"

definition calculateOptimalAmount :: "config \<Rightarrow> string \<Rightarrow> jsnum \<Rightarrow> jsnum \<Rightarrow> jsnum" where
  "calculateOptimalAmount cfg tokenPair' buyPrice' sellPrice' =
     (let maxTransactionValueUSD = Num (maxTransactionValue cfg);
          optimalAmountUSD = js_min maxTransactionValueUSD (Num 1000)
      in js_div optimalAmountUSD buyPrice')"

text \<open>
  \<open>createOpportunity\<close> returns \<open>null\<close> (\<open>None\<close>) when the percentage is below 0.5 and
  the opportunity otherwise. The function is synchronous; its two readings of the clock
  are taken to be the same instant \<open>now\<close>.
\<close>

definition createOpportunity ::
  "config \<Rightarrow> int \<Rightarrow> string \<Rightarrow> string \<Rightarrow> string \<Rightarrow> jsnum \<Rightarrow> jsnum \<Rightarrow> opportunity option" where
  "createOpportunity cfg now tokenPair' buyDEX' sellDEX' buyPrice' sellPrice' =
     (let priceDifference' = js_sub sellPrice' buyPrice';
          priceDifferencePercent' = js_mul (js_div priceDifference' buyPrice') (Num 100)
      in if js_lt priceDifferencePercent' (Num (5 / 10)) then None
         else
           let amount' = calculateOptimalAmount cfg tokenPair' buyPrice' sellPrice'
           in Some \<lparr>id_opp = tokenPair' @ ''_'' @ buyDEX' @ ''_'' @ sellDEX' @ ''_'' @ show_int now,
                     tokenPair = tokenPair',
                     buyDEX = buyDEX',
                     sellDEX = sellDEX',
                     buyPrice = buyPrice',
                     sellPrice = sellPrice',
                     amount = amount',
                     priceDifference = priceDifference',
                     priceDifferencePercent = priceDifferencePercent',
                     timestamp = now\<rparr>)"

text \<open>
  A price snapshot: for every DEX, in the key order of the object, the quotes by token
  pair. A quote that is missing or \<open>null\<close> is \<open>None\<close>. Only the \<open>price\<close> of a quote is
  read by the detector.
\<close>

record quote =
  price :: jsnum
  observedAt :: int

type_synonym price_data = "(string \<times> (string \<rightharpoonup> quote)) list"

text \<open>The index pairs \<open>i < j\<close> of the two nested loops, in the order they are visited.\<close>

fun dex_pairs :: "'a list \<Rightarrow> ('a \<times> 'a) list" where
  "dex_pairs [] = []"
| "dex_pairs (x # xs) = map (Pair x) xs @ dex_pairs xs"

text \<open>The body of the inner loop: skip on a missing quote, else try both directions.\<close>

definition compare_dexes ::
  "config \<Rightarrow> int \<Rightarrow> string \<Rightarrow> (string \<times> (string \<rightharpoonup> quote)) \<times> (string \<times> (string \<rightharpoonup> quote)) \<Rightarrow> opportunity list" where
  "compare_dexes cfg now tokenPair' p =
     (case p of ((dex1, prices1), (dex2, prices2)) \<Rightarrow>
        (case (prices1 tokenPair', prices2 tokenPair') of
           (Some price1, Some price2) \<Rightarrow>
             (let opp1 = createOpportunity cfg now tokenPair' dex1 dex2 (price price1) (price price2);
                  opp2 = createOpportunity cfg now tokenPair' dex2 dex1 (price price2) (price price1)
              in (case opp1 of None \<Rightarrow> [] | Some a \<Rightarrow> [a]) @ (case opp2 of None \<Rightarrow> [] | Some b \<Rightarrow> [b]))
         | _ \<Rightarrow> []))"

definition findArbitrageOpportunities :: "config \<Rightarrow> int \<Rightarrow> string list \<Rightarrow> price_data \<Rightarrow> opportunity list" where
  "findArbitrageOpportunities cfg now tokenPairs' allPrices =
     concat (map (\<lambda>tokenPair'. concat (map (compare_dexes cfg now tokenPair') (dex_pairs allPrices)))
                 tokenPairs')"

subsection \<open>Dispatcher\<close>

record engine_metrics =
  opportunitiesFound :: nat
  tradesExecuted :: nat
  successfulTrades :: nat
  totalProfit :: jsnum
  averageExecutionTime :: jsnum

record receipt =
  blockNumber :: int
  gasUsed :: int
  effectiveGasPrice :: int

text \<open>
  The three ways a settlement attempt ends: \<open>contractInteraction.executeArbitrage\<close>
  throws (no transaction hash yet), \<open>waitForTransaction\<close> throws (timeout, or a receipt
  whose status is not 1), or the receipt arrives.
\<close>

datatype settlement =
    SubmitRejected string
  | ConfirmationFailed string string
  | Confirmed string receipt

text \<open>
  What the outside world answers during one \<open>executeArbitrage\<close>. \<open>calculateActualProfit\<close>
  catches every error of its own and always returns a number, given here as \<open>actualProfit\<close>.
\<close>

record exec_env =
  startTime :: int
  settled :: settlement
  confirmTime :: int
  actualProfit :: jsnum
  failTime :: int

datatype engine_event =
    ArbitrageExecuted enhanced_opportunity string jsnum int
  | ArbitrageFailed enhanced_opportunity string

datatype trade_row =
    TradeRow enhanced_opportunity "string option" "receipt option" jsnum string "string option"

text \<open>
  The engine: the in-flight map (a JavaScript \<open>Map\<close>, kept as an association list in
  insertion order), the metrics and the two services it owns. The last four fields are
  not fields of the class: they log, in order, the calls the engine makes to its
  collaborators (settlement boundary, persistence, event listeners).
\<close>

record engine =
  opportunities :: "(string \<times> opportunity) list"
  metrics :: engine_metrics
  riskManager :: risk_manager
  profitCalculator :: profit_calculator
  isRunning :: bool
  tokenPairs :: "string list"
  submitted :: "enhanced_opportunity list"
  recordedOpportunities :: "(enhanced_opportunity \<times> string) list"
  recordedTrades :: "trade_row list"
  emitted :: "engine_event list"

definition new_ArbitrageEngine :: "string \<Rightarrow> engine" where
  "new_ArbitrageEngine today =
     \<lparr>opportunities = [],
      metrics = \<lparr>opportunitiesFound = 0, tradesExecuted = 0, successfulTrades = 0,
                 totalProfit = Num 0, averageExecutionTime = Num 0\<rparr>,
      riskManager = new_RiskManager today,
      profitCalculator = new_ProfitCalculator,
      isRunning = False,
      tokenPairs = [''WETH/USDC'', ''WETH/USDT'', ''WETH/DAI''],
      submitted = [],
      recordedOpportunities = [],
      recordedTrades = [],
      emitted = []\<rparr>"

definition map_has :: "'k \<Rightarrow> ('k \<times> 'v) list \<Rightarrow> bool" where
  "map_has k m = (k \<in> fst ` set m)"

fun map_set :: "'k \<Rightarrow> 'v \<Rightarrow> ('k \<times> 'v) list \<Rightarrow> ('k \<times> 'v) list" where
  "map_set k v [] = [(k, v)]"
| "map_set k v (p # ps) = (if fst p = k then (k, v) # ps else p # map_set k v ps)"

definition map_delete :: "'k \<Rightarrow> ('k \<times> 'v) list \<Rightarrow> ('k \<times> 'v) list" where
  "map_delete k m = filter (\<lambda>p. fst p \<noteq> k) m"

text \<open>
  \<open>executeArbitrage\<close>. On the success path the metrics are updated, the trade is
  recorded and \<open>arbitrageExecuted\<close> is emitted; the risk manager is not called. On the
  failure path the trade is recorded as failed, \<open>recordFailure\<close> is called and
  \<open>arbitrageFailed\<close> is emitted. Event listeners are taken not to throw.
\<close>

definition executeArbitrage :: "config \<Rightarrow> exec_env \<Rightarrow> enhanced_opportunity \<Rightarrow> engine \<Rightarrow> engine" where
  "executeArbitrage cfg env e s =
     (let s0 = s\<lparr>submitted := submitted s @ [e]\<rparr>;
          failed = (\<lambda>transactionHash message.
             s0\<lparr>recordedTrades := recordedTrades s0 @
                    [TradeRow e transactionHash None (Num 0) ''failed'' (Some message)],
                riskManager := recordFailure cfg (failTime env) (riskManager s0),
                emitted := emitted s0 @ [ArbitrageFailed e message]\<rparr>)
      in case settled env of
           SubmitRejected message \<Rightarrow> failed None message
         | ConfirmationFailed transactionHash message \<Rightarrow> failed (Some transactionHash) message
         | Confirmed transactionHash receipt' \<Rightarrow>
             (let executionTime = confirmTime env - startTime env;
                  m = metrics s0;
                  executed = tradesExecuted m + 1;
                  m' = m\<lparr>tradesExecuted := executed,
                         successfulTrades := successfulTrades m + 1,
                         totalProfit := js_add (totalProfit m) (actualProfit env),
                         averageExecutionTime :=
                           js_div (js_add (js_mul (averageExecutionTime m) (Num (real executed - 1)))
                                          (Num (real_of_int executionTime)))
                                  (Num (real executed))\<rparr>
              in s0\<lparr>metrics := m',
                     recordedTrades := recordedTrades s0 @
                       [TradeRow e (Some transactionHash) (Some receipt') (actualProfit env) ''success'' None],
                     emitted := emitted s0 @
                       [ArbitrageExecuted e transactionHash (actualProfit env) executionTime]\<rparr>))"

record process_env =
  feeds_env :: feeds
  execution_env :: exec_env

text \<open>
  \<open>processOpportunity\<close>, run from its first statement to its last. The whole body is a
  \<open>try\<close> whose \<open>finally\<close> block deletes \<open>opportunity.id\<close> from the map; a \<open>finally\<close>
  block also runs when the \<open>try\<close> block leaves through \<open>return\<close>, so the deletion
  happens on the early return of the duplicate check as well. An error of
  \<open>calculateNetProfit\<close> is caught and logged.
\<close>

definition processOpportunity :: "config \<Rightarrow> process_env \<Rightarrow> opportunity \<Rightarrow> engine \<Rightarrow> engine" where
  "processOpportunity cfg env opportunity' s =
     (let opportunityId = id_opp opportunity';
          finally = (\<lambda>s'. s'\<lparr>opportunities := map_delete opportunityId (opportunities s')\<rparr>)
      in if map_has opportunityId (opportunities s) then finally s
         else
           let s1 = s\<lparr>opportunities := map_set opportunityId opportunity' (opportunities s),
                      metrics := (metrics s)\<lparr>opportunitiesFound := opportunitiesFound (metrics s) + 1\<rparr>\<rparr>;
               r = calculateNetProfit cfg (feeds_env env) (profitCalculator s1) opportunity';
               s2 = s1\<lparr>profitCalculator := fst r\<rparr>
           in case snd r of
                Inl err \<Rightarrow> finally s2
              | Inr profitAnalysis \<Rightarrow>
                  (let enhancedOpportunity = \<lparr>opp = opportunity', analysis = profitAnalysis\<rparr>
                   in if \<not> validateOpportunity cfg enhancedOpportunity
                      then finally (s2\<lparr>recordedOpportunities :=
                             recordedOpportunities s2 @ [(enhancedOpportunity, ''rejected'')]\<rparr>)
                      else
                        let s3 = s2\<lparr>recordedOpportunities :=
                                   recordedOpportunities s2 @ [(enhancedOpportunity, ''validated'')]\<rparr>
                        in if profitable profitAnalysis
                           then finally (executeArbitrage cfg (execution_env env) enhancedOpportunity s3)
                           else finally s3))"

definition cleanupExpiredOpportunities :: "config \<Rightarrow> int \<Rightarrow> engine \<Rightarrow> engine" where
  "cleanupExpiredOpportunities cfg now s =
     s\<lparr>opportunities :=
         filter (\<lambda>p. \<not> (now - timestamp (snd p) > opportunityTimeoutMs cfg)) (opportunities s)\<rparr>"

record metrics_report =
  reported :: engine_metrics
  reportedRunning :: bool
  activeOpportunities :: nat
  tokenPairsMonitored :: nat
  averageSuccessRate :: jsnum

definition getMetrics :: "engine \<Rightarrow> metrics_report" where
  "getMetrics s =
     \<lparr>reported = metrics s,
      reportedRunning = isRunning s,
      activeOpportunities = length (opportunities s),
      tokenPairsMonitored = length (tokenPairs s),
      averageSuccessRate =
        (if tradesExecuted (metrics s) > 0
         then js_mul (js_div (Num (real (successfulTrades (metrics s))))
                             (Num (real (tradesExecuted (metrics s))))) (Num 100)
         else Num 0)\<rparr>"

text \<open>
  The calls that write the engine's state, as one step function, and a run of such
  calls from a state.
\<close>

datatype engine_call =
    ProcessOpportunity process_env opportunity
  | ExecuteArbitrage exec_env enhanced_opportunity
  | CleanupExpiredOpportunities int
  | RiskCall rm_call
  | CanTrade int string

fun engine_step :: "config \<Rightarrow> engine_call \<Rightarrow> engine \<Rightarrow> engine" where
  "engine_step cfg (ProcessOpportunity env opportunity') s = processOpportunity cfg env opportunity' s"
| "engine_step cfg (ExecuteArbitrage env e) s = executeArbitrage cfg env e s"
| "engine_step cfg (CleanupExpiredOpportunities now) s = cleanupExpiredOpportunities cfg now s"
| "engine_step cfg (RiskCall c) s = s\<lparr>riskManager := rm_step cfg c (riskManager s)\<rparr>"
| "engine_step cfg (CanTrade now currentDate) s =
     s\<lparr>riskManager := snd (canTrade cfg now currentDate (riskManager s))\<rparr>"

fun engine_run :: "config \<Rightarrow> engine_call list \<Rightarrow> engine \<Rightarrow> engine" where
  "engine_run cfg [] s = s"
| "engine_run cfg (c # cs) s = engine_run cfg cs (engine_step cfg c s)"

section \<open>Example inputs\<close>

text \<open>
  The opportunity the detector builds at time 0 for WETH/USDC quoted at 2000 on Uniswap
  and at 2200 on SushiSwap, and the same opportunity with a buy venue that is not in the
  configuration.
\<close>

definition example_opportunity :: opportunity where
  "example_opportunity =
     \<lparr>id_opp = ''WETH/USDC_uniswap_sushiswap_0'',
      tokenPair = ''WETH/USDC'',
      buyDEX = ''uniswap'',
      sellDEX = ''sushiswap'',
      buyPrice = Num 2000,
      sellPrice = Num 2200,
      amount = Num (1 / 2),
      priceDifference = Num 200,
      priceDifferencePercent = Num 10,
      timestamp = 0\<rparr>"

definition unknown_dex_opportunity :: opportunity where
  "unknown_dex_opportunity = example_opportunity\<lparr>buyDEX := ''unknown_dex''\<rparr>"

text \<open>Feeds that all fail, so that every documented fallback value is used.\<close>

definition fallback_feeds :: feeds where
  "fallback_feeds = \<lparr>clock = 0, feeData = None, ethPrice = None, slippagePercents = None\<rparr>"

text \<open>
  The analysis \<open>calculateNetProfit\<close> returns for \<open>example_opportunity\<close> under the default
  configuration and \<open>fallback_feeds\<close>: gross 100, gas 14.4, fees 6.3, slippage 30.
\<close>

definition example_analysis :: profit_analysis where
  "example_analysis =
     \<lparr>grossProfit = Num 100,
      gasEstimate = Num (72 / 5),
      platformFees = Num (63 / 10),
      slippageImpact = Num 30,
      netProfit = Num (493 / 10),
      profitMargin = Num (493 / 100),
      profitable = True,
      breakdown = \<lparr>buyAmount = Num 1000, sellAmount = Num 1100, buyFee = Num 3,
                    sellFee = Num (33 / 10), gasEstimateGwei = 0\<rparr>\<rparr>"

definition example_enhanced :: enhanced_opportunity where
  "example_enhanced = \<lparr>opp = example_opportunity, analysis = example_analysis\<rparr>"

definition settlement_ok :: exec_env where
  "settlement_ok =
     \<lparr>startTime = 0,
      settled = Confirmed ''0x123'' \<lparr>blockNumber = 18000000, gasUsed = 250000,
                                       effectiveGasPrice = 20000000000\<rparr>,
      confirmTime = 1500,
      actualProfit = Num 90,
      failTime = 1500\<rparr>"

definition settlement_timeout :: exec_env where
  "settlement_timeout = settlement_ok\<lparr>settled := ConfirmationFailed ''0x456'' ''timeout''\<rparr>"

definition example_env :: process_env where
  "example_env = \<lparr>feeds_env = fallback_feeds, execution_env = settlement_ok\<rparr>"

definition today :: string where
  "today = ''Mon Jan 01 2024''"

definition tomorrow :: string where
  "tomorrow = ''Tue Jan 02 2024''"

text \<open>An engine in which \<open>example_opportunity\<close> is in flight.\<close>

definition engine_in_flight :: engine where
  "engine_in_flight =
     (new_ArbitrageEngine today)
       \<lparr>opportunities := [(id_opp example_opportunity, example_opportunity)],
        metrics := (metrics (new_ArbitrageEngine today))\<lparr>opportunitiesFound := 1\<rparr>\<rparr>"

text \<open>A two-venue snapshot with one quote per venue for WETH/USDC.\<close>

definition snapshot :: "jsnum \<Rightarrow> jsnum \<Rightarrow> price_data" where
  "snapshot p1 p2 =
     [(''uniswap'', [''WETH/USDC'' \<mapsto> \<lparr>price = p1, observedAt = 0\<rparr>]),
      (''sushiswap'', [''WETH/USDC'' \<mapsto> \<lparr>price = p2, observedAt = 0\<rparr>])]"

text \<open>
  A snapshot of three venues and two token pairs: Uniswap has no quote for WETH/DAI,
  PancakeSwap quotes WETH/USDC at 0, and SushiSwap and PancakeSwap quote WETH/DAI at
  negative prices.
\<close>

definition three_venue_snapshot :: price_data where
  "three_venue_snapshot =
     [(''uniswap'', [''WETH/USDC'' \<mapsto> \<lparr>price = Num 2000, observedAt = 0\<rparr>]),
      (''sushiswap'', [''WETH/USDC'' \<mapsto> \<lparr>price = Num 2001, observedAt = 0\<rparr>,
                       ''WETH/DAI'' \<mapsto> \<lparr>price = Num (- 2000), observedAt = 0\<rparr>]),
      (''pancakeswap'', [''WETH/USDC'' \<mapsto> \<lparr>price = Num 0, observedAt = 0\<rparr>,
                         ''WETH/DAI'' \<mapsto> \<lparr>price = Num (- 2020), observedAt = 0\<rparr>])]"

section \<open>Circuit breaker\<close>

lemma recordFailures_snoc:
  "recordFailures cfg (ts @ [t]) rm = recordFailure cfg t (recordFailures cfg ts rm)"
  by (induction ts arbitrary: rm) simp_all

lemma recordFailures_below_threshold:
  "\<not> circuitBreakerOpen rm \<Longrightarrow> consecutiveFailures rm = 0
   \<Longrightarrow> int (length ts) < maxConsecutiveFailures cfg
   \<Longrightarrow> \<not> circuitBreakerOpen (recordFailures cfg ts rm)
       \<and> consecutiveFailures (recordFailures cfg ts rm) = int (length ts)"
proof (induction ts rule: rev_induct)
  case Nil
  then show ?case by simp
next
  case (snoc t ts)
  then have "\<not> circuitBreakerOpen (recordFailures cfg ts rm)
      \<and> consecutiveFailures (recordFailures cfg ts rm) = int (length ts)"
    by simp
  with snoc.prems(3) show ?case
    by (simp add: recordFailures_snoc recordFailure_def Let_def)
qed

lemma recordFailures_at_threshold:
  assumes "\<not> circuitBreakerOpen rm" and "consecutiveFailures rm = 0"
    and "ts \<noteq> []" and "int (length ts) = maxConsecutiveFailures cfg"
  shows "circuitBreakerOpen (recordFailures cfg ts rm)
       \<and> circuitBreakerOpenTime (recordFailures cfg ts rm) = last ts
       \<and> consecutiveFailures (recordFailures cfg ts rm) = maxConsecutiveFailures cfg"
proof -
  from assms(3) obtain us t where ts: "ts = us @ [t]"
    by (cases ts rule: rev_cases) auto
  with assms(4) have "int (length us) < maxConsecutiveFailures cfg" by simp
  with assms(1,2) have "consecutiveFailures (recordFailures cfg us rm) = int (length us)"
    using recordFailures_below_threshold by blast
  with assms(4) ts show ?thesis
    by (simp add: recordFailures_snoc recordFailure_def Let_def)
qed

lemma canTrade_open_before_timeout:
  "circuitBreakerOpen rm \<Longrightarrow> now - circuitBreakerOpenTime rm < circuitBreakerTimeoutMs cfg
   \<Longrightarrow> canTrade cfg now d rm = (False, rm)"
  by (simp add: canTrade_def)

lemma canTrade_open_after_timeout:
  "circuitBreakerOpen rm \<Longrightarrow> \<not> tradingPaused rm
   \<Longrightarrow> circuitBreakerTimeoutMs cfg \<le> now - circuitBreakerOpenTime rm
   \<Longrightarrow> \<not> circuitBreakerOpen (snd (canTrade cfg now d rm))
       \<and> consecutiveFailures (snd (canTrade cfg now d rm)) = 0"
  by (simp add: canTrade_def Let_def)

lemma rm_step_keeps_open:
  "circuitBreakerOpen rm \<Longrightarrow> circuitBreakerOpen (rm_step cfg c rm)"
  by (cases c)
     (simp_all add: recordFailure_def recordSuccess_def recordLoss_def pauseTrading_def
        resumeTrading_def loadDailyMetrics_def Let_def split: option.splits)

lemma recordFailures_tradingPaused:
  "tradingPaused (recordFailures cfg ts rm) = tradingPaused rm"
  by (induction ts arbitrary: rm) (simp_all add: recordFailure_def Let_def)

text \<open>
  Claim C1. Start from a closed breaker (trading enabled, no failure counted) and let
  \<open>recordFailure\<close> be called \<open>maxConsecutiveFailures\<close> times in a row (\<open>ts\<close> holds the
  clock readings of the calls). Then the breaker is open, and a \<open>canTrade\<close> evaluated
  before the timeout has elapsed since the last of these calls returns false and changes
  nothing. After fewer calls the breaker is still closed and the counter equals their
  number, and a \<open>recordSuccess\<close> at that point sets the counter to zero. A \<open>canTrade\<close>
  evaluated once \<open>circuitBreakerTimeoutMs\<close> has elapsed since the opening closes the
  breaker and zeroes the counter; this holds for every open breaker while trading is not
  manually paused. No call other than \<open>canTrade\<close> closes an open breaker.
\<close>

theorem circuit_breaker_state_machine:
  assumes "\<not> circuitBreakerOpen rm" and "\<not> tradingPaused rm" and "consecutiveFailures rm = 0"
    and "ts \<noteq> []" and "int (length ts) = maxConsecutiveFailures cfg"
  shows "circuitBreakerOpen (recordFailures cfg ts rm)
       \<and> (\<forall>now d. now - last ts < circuitBreakerTimeoutMs cfg
             \<longrightarrow> canTrade cfg now d (recordFailures cfg ts rm) = (False, recordFailures cfg ts rm))
       \<and> (\<forall>k < length ts.
             \<not> circuitBreakerOpen (recordFailures cfg (take k ts) rm)
           \<and> consecutiveFailures (recordFailures cfg (take k ts) rm) = int k
           \<and> \<not> circuitBreakerOpen (recordSuccess (recordFailures cfg (take k ts) rm))
           \<and> consecutiveFailures (recordSuccess (recordFailures cfg (take k ts) rm)) = 0)
       \<and> (\<forall>now d. circuitBreakerTimeoutMs cfg \<le> now - last ts
             \<longrightarrow> \<not> circuitBreakerOpen (snd (canTrade cfg now d (recordFailures cfg ts rm)))
                \<and> consecutiveFailures (snd (canTrade cfg now d (recordFailures cfg ts rm))) = 0)
       \<and> (\<forall>now d rm'. circuitBreakerOpen rm' \<and> \<not> tradingPaused rm'
             \<and> circuitBreakerTimeoutMs cfg \<le> now - circuitBreakerOpenTime rm'
             \<longrightarrow> \<not> circuitBreakerOpen (snd (canTrade cfg now d rm'))
                \<and> consecutiveFailures (snd (canTrade cfg now d rm')) = 0)
       \<and> (\<forall>c rm'. circuitBreakerOpen rm' \<longrightarrow> circuitBreakerOpen (rm_step cfg c rm'))"
proof -
  let ?rm = "recordFailures cfg ts rm"
  have opened: "circuitBreakerOpen ?rm \<and> circuitBreakerOpenTime ?rm = last ts"
    using recordFailures_at_threshold [OF assms(1,3,4,5)] by simp
  have running: "\<not> tradingPaused ?rm"
    using assms(2) by (simp add: recordFailures_tradingPaused)
  have before: "\<forall>now d. now - last ts < circuitBreakerTimeoutMs cfg
      \<longrightarrow> canTrade cfg now d ?rm = (False, ?rm)"
    using opened canTrade_open_before_timeout by simp
  have below: "\<forall>k < length ts.
        \<not> circuitBreakerOpen (recordFailures cfg (take k ts) rm)
      \<and> consecutiveFailures (recordFailures cfg (take k ts) rm) = int k
      \<and> \<not> circuitBreakerOpen (recordSuccess (recordFailures cfg (take k ts) rm))
      \<and> consecutiveFailures (recordSuccess (recordFailures cfg (take k ts) rm)) = 0"
  proof (intro allI impI)
    fix k assume k: "k < length ts"
    then have "int (length (take k ts)) < maxConsecutiveFailures cfg"
      using assms(5) by simp
    from recordFailures_below_threshold [OF assms(1,3) this] k
    show "\<not> circuitBreakerOpen (recordFailures cfg (take k ts) rm)
      \<and> consecutiveFailures (recordFailures cfg (take k ts) rm) = int k
      \<and> \<not> circuitBreakerOpen (recordSuccess (recordFailures cfg (take k ts) rm))
      \<and> consecutiveFailures (recordSuccess (recordFailures cfg (take k ts) rm)) = 0"
      by (simp add: recordSuccess_def)
  qed
  have after: "\<forall>now d rm'. circuitBreakerOpen rm' \<and> \<not> tradingPaused rm'
             \<and> circuitBreakerTimeoutMs cfg \<le> now - circuitBreakerOpenTime rm'
             \<longrightarrow> \<not> circuitBreakerOpen (snd (canTrade cfg now d rm'))
                \<and> consecutiveFailures (snd (canTrade cfg now d rm')) = 0"
    using canTrade_open_after_timeout by blast
  have after_run: "\<forall>now d. circuitBreakerTimeoutMs cfg \<le> now - last ts
             \<longrightarrow> \<not> circuitBreakerOpen (snd (canTrade cfg now d ?rm))
                \<and> consecutiveFailures (snd (canTrade cfg now d ?rm)) = 0"
    using opened running after by simp
  have lazy: "\<forall>c rm'. circuitBreakerOpen rm' \<longrightarrow> circuitBreakerOpen (rm_step cfg c rm')"
    using rm_step_keeps_open by blast
  from opened before below after_run after lazy show ?thesis by blast
qed

theorem circuit_breaker_state_machine_witness:
  "circuitBreakerOpen (recordFailures default_config [1, 2, 3, 4, 5] (new_RiskManager today))
   \<and> canTrade default_config 1000 today
        (recordFailures default_config [1, 2, 3, 4, 5] (new_RiskManager today))
      = (False, recordFailures default_config [1, 2, 3, 4, 5] (new_RiskManager today))
   \<and> consecutiveFailures (recordFailures default_config [1, 2, 3] (new_RiskManager today)) = 3
   \<and> consecutiveFailures
        (recordSuccess (recordFailures default_config [1, 2, 3] (new_RiskManager today))) = 0
   \<and> \<not> circuitBreakerOpen (snd (canTrade default_config 300005 today
        (recordFailures default_config [1, 2, 3, 4, 5] (new_RiskManager today))))
   \<and> consecutiveFailures (snd (canTrade default_config 300005 today
        (recordFailures default_config [1, 2, 3, 4, 5] (new_RiskManager today)))) = 0
   \<and> circuitBreakerOpen (rm_step default_config RecordSuccess
        (recordFailures default_config [1, 2, 3, 4, 5] (new_RiskManager today)))"
proof -
  let ?rm = "new_RiskManager today"
  let ?ts = "[1, 2, 3, 4, 5] :: int list"
  have h1: "\<not> circuitBreakerOpen ?rm" by (simp add: new_RiskManager_def)
  have h2: "\<not> tradingPaused ?rm" by (simp add: new_RiskManager_def)
  have h3: "consecutiveFailures ?rm = 0" by (simp add: new_RiskManager_def)
  have h4: "?ts \<noteq> []" by simp
  have h5: "int (length ?ts) = maxConsecutiveFailures default_config"
    by (simp add: default_config_def)
  note m = circuit_breaker_state_machine [OF h1 h2 h3 h4 h5]
  have a: "circuitBreakerOpen (recordFailures default_config ?ts ?rm)"
    using m by blast
  have b: "canTrade default_config 1000 today (recordFailures default_config ?ts ?rm)
      = (False, recordFailures default_config ?ts ?rm)"
  proof -
    have "(1000::int) - last ?ts < circuitBreakerTimeoutMs default_config"
      by (simp add: default_config_def)
    with m show ?thesis by blast
  qed
  have c: "consecutiveFailures (recordFailures default_config [1, 2, 3] ?rm) = 3
      \<and> consecutiveFailures (recordSuccess (recordFailures default_config [1, 2, 3] ?rm)) = 0"
  proof -
    have "(3::nat) < length ?ts" by simp
    with m have "consecutiveFailures (recordFailures default_config (take 3 ?ts) ?rm) = int 3
      \<and> consecutiveFailures (recordSuccess (recordFailures default_config (take 3 ?ts) ?rm)) = 0"
      by blast
    then show ?thesis by simp
  qed
  have d: "\<not> circuitBreakerOpen (snd (canTrade default_config 300005 today
        (recordFailures default_config ?ts ?rm)))
      \<and> consecutiveFailures (snd (canTrade default_config 300005 today
        (recordFailures default_config ?ts ?rm))) = 0"
  proof -
    have "circuitBreakerTimeoutMs default_config \<le> 300005 - last ?ts"
      by (simp add: default_config_def)
    with m show ?thesis by blast
  qed
  have e: "circuitBreakerOpen (rm_step default_config RecordSuccess
        (recordFailures default_config ?ts ?rm))"
    using a m by blast
  from a b c d e show ?thesis by blast
qed

section \<open>Daily loss cap\<close>

lemma canTrade_over_limit:
  "js_ge (dailyLoss rm) (Num (maxDailyLoss cfg))
   \<Longrightarrow> fst (canTrade cfg now d rm) = False
     \<and> dailyLoss (snd (canTrade cfg now d rm)) = dailyLoss rm
     \<and> lastResetDate (snd (canTrade cfg now d rm)) = lastResetDate rm"
  by (simp add: canTrade_def Let_def)

text \<open>
  Claim C3. A loss of 1000 USD recorded on Monday brings \<open>dailyLoss\<close> to exactly
  \<open>maxDailyLoss\<close>. A \<open>canTrade\<close> evaluated on Tuesday, after the day boundary, returns
  false and leaves every field as it was: \<open>dailyLoss\<close> is still 1000 and \<open>lastResetDate\<close>
  is still Monday, because the limit check returns before the reset of the daily metrics
  is reached (\<open>canTrade_over_limit\<close> shows this for every state at or over the limit).
\<close>

theorem daily_loss_cap_blocks_reset:
  "dailyLoss (recordLoss (Num (- 1000)) (new_RiskManager today)) = Num (maxDailyLoss default_config)
   \<and> canTrade default_config 86400000 tomorrow (recordLoss (Num (- 1000)) (new_RiskManager today))
       = (False, recordLoss (Num (- 1000)) (new_RiskManager today))"
  by (simp add: canTrade_def recordLoss_def new_RiskManager_def default_config_def js_ge_def
      today_def tomorrow_def Let_def)

section \<open>Profit calculation\<close>

lemma default_dexes_unknown: "default_dexes ''unknown_dex'' = None"
  by (simp add: default_dexes_def)

lemma default_dexes_sushiswap: "default_dexes ''sushiswap'' = Some \<lparr>fee = 3 / 1000\<rparr>"
  by (simp add: default_dexes_def)

text \<open>
  When both venues are configured, \<open>calculateNetProfit\<close> returns a breakdown, and the
  breakdown satisfies the four equations of the estimator.
\<close>

lemma calculateNetProfit_configured:
  assumes "dexes cfg (buyDEX o') = Some b" and "dexes cfg (sellDEX o') = Some s"
  shows "\<exists>r. snd (calculateNetProfit cfg env pc o') = Inr r
     \<and> grossProfit r = js_mul (js_sub (sellPrice o') (buyPrice o')) (amount o')
     \<and> netProfit r = js_sub (js_sub (js_sub (grossProfit r) (gasEstimate r)) (platformFees r)) (slippageImpact r)
     \<and> profitMargin r = (if js_gt (netProfit r) (Num 0)
                         then js_mul (js_div (netProfit r) (js_mul (buyPrice o') (amount o'))) (Num 100)
                         else Num 0)
     \<and> profitable r = js_ge (netProfit r) (Num (minProfitUSD cfg))"
  using assms by (simp add: calculateNetProfit_def Let_def)

lemma calculateNetProfit_example:
  "snd (calculateNetProfit default_config fallback_feeds new_ProfitCalculator example_opportunity)
     = Inr example_analysis"
  by (simp add: calculateNetProfit_def calculatePlatformFees_def calculateSlippageImpact_def
      estimateGasFees_def getETHPriceUSD_def updateGasPrice_def or_else_def
      gasPriceUpdateInterval_def fallback_feeds_def new_ProfitCalculator_def
      example_opportunity_def example_analysis_def default_config_def default_dexes_def
      js_sub_def js_gt_def js_ge_def Let_def)

text \<open>
  Claim C2. For an opportunity whose buy venue is not in the configuration,
  \<open>calculateNetProfit\<close> returns no breakdown: it ends in a \<open>TypeError\<close>. The sibling
  \<open>calculatePlatformFees\<close> handles the same venue pair with the default fee rate of 0.3%
  (here 0.003 * (1000 + 1100) = 6.3).
\<close>

theorem calculateNetProfit_unknown_dex_throws:
  "snd (calculateNetProfit default_config fallback_feeds new_ProfitCalculator unknown_dex_opportunity)
     = Inl TypeError
   \<and> calculatePlatformFees default_config (Num 1000) (Num 1100) ''unknown_dex'' ''sushiswap''
     = Num (63 / 10)"
  by (simp add: calculateNetProfit_def calculatePlatformFees_def unknown_dex_opportunity_def
      example_opportunity_def default_config_def default_dexes_unknown default_dexes_sushiswap Let_def)

section \<open>Dispatcher: outcome notification\<close>

lemma executeArbitrage_confirmed_riskManager:
  "settled env = Confirmed h r \<Longrightarrow> riskManager (executeArbitrage cfg env e s) = riskManager s"
  by (simp add: executeArbitrage_def Let_def)

text \<open>
  Claim C6. With four failures counted, a confirmed settlement leaves the counter at 4
  (\<open>recordSuccess\<close>, which would set it to 0, is not called on the success path; see
  \<open>executeArbitrage_confirmed_riskManager\<close>), so that one later failed settlement opens the
  circuit breaker although a success lies between the fourth and the fifth failure.
\<close>

theorem success_does_not_reset_failures:
  "consecutiveFailures (riskManager
      (executeArbitrage default_config settlement_ok example_enhanced
         ((new_ArbitrageEngine today)
            \<lparr>riskManager := recordFailures default_config [1, 2, 3, 4] (new_RiskManager today)\<rparr>))) = 4
   \<and> consecutiveFailures (recordSuccess
        (recordFailures default_config [1, 2, 3, 4] (new_RiskManager today))) = 0
   \<and> circuitBreakerOpen (riskManager
        (executeArbitrage default_config settlement_timeout example_enhanced
          (executeArbitrage default_config settlement_ok example_enhanced
            ((new_ArbitrageEngine today)
               \<lparr>riskManager := recordFailures default_config [1, 2, 3, 4] (new_RiskManager today)\<rparr>))))"
  by (simp add: executeArbitrage_def settlement_ok_def settlement_timeout_def recordFailure_def
      recordSuccess_def new_ArbitrageEngine_def new_RiskManager_def default_config_def Let_def)

section \<open>Dispatcher: deduplication\<close>

lemma processOpportunity_duplicate:
  "map_has (id_opp o') (opportunities s)
   \<Longrightarrow> processOpportunity cfg env o' s = s\<lparr>opportunities := map_delete (id_opp o') (opportunities s)\<rparr>"
  by (simp add: processOpportunity_def Let_def)

lemma validateOpportunity_example: "validateOpportunity default_config example_enhanced"
  by (simp add: validateOpportunity_def validations_def checkProfitThreshold_def
      checkSlippageTolerance_def checkLiquidityRequirements_def checkTransactionValue_def
      checkTokenSafety_def example_enhanced_def example_opportunity_def example_analysis_def
      default_config_def js_ge_def Let_def)

text \<open>
  Claim C8. While \<open>example_opportunity\<close> is in flight, a second submission of the same id
  makes no settlement attempt, but it removes the id from the in-flight map (the
  \<open>finally\<close> block runs on the early return). The map no longer knows the first
  submission, and a third submission of the same id is dispatched to the settlement
  boundary.
\<close>

theorem duplicate_submission_evicts_in_flight:
  "map_has (id_opp example_opportunity) (opportunities engine_in_flight)
   \<and> \<not> map_has (id_opp example_opportunity)
        (opportunities (processOpportunity default_config example_env example_opportunity engine_in_flight))
   \<and> submitted (processOpportunity default_config example_env example_opportunity engine_in_flight) = []
   \<and> submitted (processOpportunity default_config example_env example_opportunity
        (processOpportunity default_config example_env example_opportunity engine_in_flight))
      = [example_enhanced]"
proof -
  have a: "map_has (id_opp example_opportunity) (opportunities engine_in_flight)"
    by (simp add: engine_in_flight_def map_has_def)
  have b: "processOpportunity default_config example_env example_opportunity engine_in_flight
      = engine_in_flight\<lparr>opportunities := []\<rparr>"
    by (simp add: processOpportunity_duplicate [OF a]) (simp add: engine_in_flight_def map_delete_def)
  have p: "profitable example_analysis"
    by (simp add: example_analysis_def)
  have e: "submitted (processOpportunity default_config example_env example_opportunity
        (engine_in_flight\<lparr>opportunities := []\<rparr>)) = [example_enhanced]"
    using calculateNetProfit_example validateOpportunity_example [unfolded example_enhanced_def] p
    by (simp add: processOpportunity_def engine_in_flight_def new_ArbitrageEngine_def map_has_def
        example_env_def executeArbitrage_def settlement_ok_def example_enhanced_def Let_def)
  from a b e show ?thesis
    by (simp add: map_has_def engine_in_flight_def new_ArbitrageEngine_def)
qed

section \<open>Detector: spread threshold\<close>









section \<open>Detector: zero and negative prices\<close>

text \<open>
  The candidates of a scan, as a set: one for each token pair, each pair of venues
  \<open>i < j\<close> that both quote the token pair, and each direction that passes the spread
  test. Nothing else decides whether a quote is used; its price is not inspected.
\<close>

lemma dex_pairs_set:
  "set (dex_pairs xs) = {(xs ! i, xs ! j) | i j. i < j \<and> j < length xs}"
proof (induction xs)
  case Nil
  then show ?case by simp
next
  case (Cons x xs)
  have "{((x # xs) ! i, (x # xs) ! j) | i j. i < j \<and> j < length (x # xs)}
      = {(x, xs ! k) | k. k < length xs} \<union> {(xs ! i, xs ! j) | i j. i < j \<and> j < length xs}"
    (is "?L = ?A \<union> ?B")
  proof (intro set_eqI iffI)
    fix p assume "p \<in> ?L"
    then obtain i j where p: "p = ((x # xs) ! i, (x # xs) ! j)" and ij: "i < j" "j < length (x # xs)"
      by blast
    from ij obtain j' where j: "j = Suc j'" by (cases j) auto
    show "p \<in> ?A \<union> ?B"
    proof (cases i)
      case 0
      with p j ij show ?thesis by auto
    next
      case (Suc i')
      with p j ij have "p = (xs ! i', xs ! j') \<and> i' < j' \<and> j' < length xs" by auto
      then show ?thesis by blast
    qed
  next
    fix p assume "p \<in> ?A \<union> ?B"
    then show "p \<in> ?L"
    proof
      assume "p \<in> ?A"
      then obtain k where "p = (x, xs ! k)" "k < length xs" by blast
      then have "p = ((x # xs) ! 0, (x # xs) ! Suc k) \<and> 0 < Suc k \<and> Suc k < length (x # xs)"
        by simp
      then show ?thesis by blast
    next
      assume "p \<in> ?B"
      then obtain i j where "p = (xs ! i, xs ! j)" "i < j" "j < length xs" by blast
      then have "p = ((x # xs) ! Suc i, (x # xs) ! Suc j) \<and> Suc i < Suc j \<and> Suc j < length (x # xs)"
        by simp
      then show ?thesis by blast
    qed
  qed
  moreover have "set (map (Pair x) xs) = {(x, xs ! k) | k. k < length xs}"
  proof -
    have "set (map (Pair x) xs) = Pair x ` set xs" by simp
    also have "set xs = {xs ! k | k. k < length xs}" by (rule set_conv_nth)
    also have "Pair x ` {xs ! k | k. k < length xs} = {(x, xs ! k) | k. k < length xs}" by blast
    finally show ?thesis .
  qed
  ultimately show ?case using Cons.IH by simp
qed


lemma compare_dexes_set:
  "set (compare_dexes cfg now tp ((d1, prices1), (d2, prices2)))
   = {o'. \<exists>q1 q2. prices1 tp = Some q1 \<and> prices2 tp = Some q2
        \<and> (createOpportunity cfg now tp d1 d2 (price q1) (price q2) = Some o'
           \<or> createOpportunity cfg now tp d2 d1 (price q2) (price q1) = Some o')}"
  by (auto simp add: compare_dexes_def Let_def split: option.splits) metis+

lemma findArbitrageOpportunities_set:
  "set (findArbitrageOpportunities cfg now tps allPrices)
   = {o'. \<exists>tp \<in> set tps. \<exists>i j. i < j \<and> j < length allPrices
        \<and> (\<exists>q1 q2. snd (allPrices ! i) tp = Some q1 \<and> snd (allPrices ! j) tp = Some q2
           \<and> (createOpportunity cfg now tp (fst (allPrices ! i)) (fst (allPrices ! j))
                  (price q1) (price q2) = Some o'
              \<or> createOpportunity cfg now tp (fst (allPrices ! j)) (fst (allPrices ! i))
                  (price q2) (price q1) = Some o'))}"
  (is "?L = ?R")
proof (intro set_eqI iffI)
  fix o' assume "o' \<in> ?L"
  then obtain tp p where tp: "tp \<in> set tps" and p: "p \<in> set (dex_pairs allPrices)"
    and o: "o' \<in> set (compare_dexes cfg now tp p)"
    by (auto simp add: findArbitrageOpportunities_def)
  from p obtain i j where ij: "i < j" "j < length allPrices" and pe: "p = (allPrices ! i, allPrices ! j)"
    unfolding dex_pairs_set by blast
  from o pe have "o' \<in> set (compare_dexes cfg now tp
      ((fst (allPrices ! i), snd (allPrices ! i)), (fst (allPrices ! j), snd (allPrices ! j))))"
    by simp
  then have "\<exists>q1 q2. snd (allPrices ! i) tp = Some q1 \<and> snd (allPrices ! j) tp = Some q2
           \<and> (createOpportunity cfg now tp (fst (allPrices ! i)) (fst (allPrices ! j))
                  (price q1) (price q2) = Some o'
              \<or> createOpportunity cfg now tp (fst (allPrices ! j)) (fst (allPrices ! i))
                  (price q2) (price q1) = Some o')"
    unfolding compare_dexes_set by blast
  with tp ij show "o' \<in> ?R" by blast
next
  fix o' assume "o' \<in> ?R"
  then obtain tp i j q1 q2 where tp: "tp \<in> set tps" and ij: "i < j" "j < length allPrices"
    and q: "snd (allPrices ! i) tp = Some q1" "snd (allPrices ! j) tp = Some q2"
    and c: "createOpportunity cfg now tp (fst (allPrices ! i)) (fst (allPrices ! j))
                  (price q1) (price q2) = Some o'
              \<or> createOpportunity cfg now tp (fst (allPrices ! j)) (fst (allPrices ! i))
                  (price q2) (price q1) = Some o'"
    by blast
  from ij have p: "(allPrices ! i, allPrices ! j) \<in> set (dex_pairs allPrices)"
    unfolding dex_pairs_set by blast
  from q c have "o' \<in> set (compare_dexes cfg now tp
      ((fst (allPrices ! i), snd (allPrices ! i)), (fst (allPrices ! j), snd (allPrices ! j))))"
    unfolding compare_dexes_set by blast
  then have "o' \<in> set (compare_dexes cfg now tp (allPrices ! i, allPrices ! j))" by simp
  with tp p show "o' \<in> ?L"
    by (auto simp add: findArbitrageOpportunities_def)
qed

text \<open>
  Claim C7. Quotes with a zero or a negative price are not rejected by the detector:
  quotes of -2000 and -2020 yield a candidate with amount -0.5, and quotes of 0 (the
  positive zero) and 2000 yield a candidate with an infinite amount. In the snapshot of
  three venues and two token pairs the scan goes on past these quotes and past the
  missing one, and returns three such candidates.
\<close>

theorem nonpositive_price_yields_candidate:
  "map (\<lambda>o'. (buyDEX o', sellDEX o', buyPrice o', sellPrice o', amount o'))
     (findArbitrageOpportunities default_config 0 [''WETH/USDC''] (snapshot (Num (- 2000)) (Num (- 2020))))
   = [(''uniswap'', ''sushiswap'', Num (- 2000), Num (- 2020), Num (- (1 / 2)))]
   \<and> map (\<lambda>o'. (buyDEX o', sellDEX o', buyPrice o', sellPrice o', amount o'))
     (findArbitrageOpportunities default_config 0 [''WETH/USDC''] (snapshot (Num 0) (Num 2000)))
   = [(''uniswap'', ''sushiswap'', Num 0, Num 2000, PosInf)]
   \<and> map (\<lambda>o'. (tokenPair o', buyDEX o', sellDEX o', buyPrice o', sellPrice o', amount o'))
     (findArbitrageOpportunities default_config 0 [''WETH/USDC'', ''WETH/DAI''] three_venue_snapshot)
   = [(''WETH/USDC'', ''pancakeswap'', ''uniswap'', Num 0, Num 2000, PosInf),
      (''WETH/USDC'', ''pancakeswap'', ''sushiswap'', Num 0, Num 2001, PosInf),
      (''WETH/DAI'', ''sushiswap'', ''pancakeswap'', Num (- 2000), Num (- 2020), Num (- (1 / 2)))]"
  by (simp add: findArbitrageOpportunities_def compare_dexes_def createOpportunity_def
      calculateOptimalAmount_def js_min_def snapshot_def three_venue_snapshot_def
      default_config_def js_sub_def Let_def)

section \<open>Validation of an opportunity\<close>

text \<open>
  Claim C5, as amended. \<open>validateOpportunity\<close> returns true if and only if the four
  numeric checks pass: net profit at least \<open>minProfitUSD\<close>, estimated slippage percentage
  \<open>slippageImpact / (buyPrice * amount) * 100\<close> at most \<open>maxSlippagePercent\<close>, notional
  \<open>buyPrice * amount\<close> at most \<open>maxTransactionValue\<close>, and notional at most a tenth of
  \<open>minLiquidityUSD\<close>. The token-safety check passes for every opportunity and is never
  among the failed checks; an opportunity is accepted exactly when no check failed.
\<close>

theorem validateOpportunity_checks:
  "(validateOpportunity cfg e \<longleftrightarrow>
      js_ge (netProfit (analysis e)) (Num (minProfitUSD cfg))
    \<and> js_le (js_mul (js_div (slippageImpact (analysis e))
                             (js_mul (buyPrice (opp e)) (amount (opp e)))) (Num 100))
             (Num (maxSlippagePercent cfg))
    \<and> js_le (js_mul (buyPrice (opp e)) (amount (opp e))) (Num (maxTransactionValue cfg))
    \<and> js_le (js_mul (buyPrice (opp e)) (amount (opp e))) (Num (minLiquidityUSD cfg / 10)))
   \<and> passed (checkTokenSafety e)
   \<and> TokenSafety \<notin> set (failedChecks cfg e)
   \<and> (validateOpportunity cfg e \<longleftrightarrow> failedChecks cfg e = [])"
  by (auto simp add: validateOpportunity_def failedChecks_def validations_def
      checkProfitThreshold_def checkSlippageTolerance_def checkLiquidityRequirements_def
      checkTransactionValue_def checkTokenSafety_def Let_def)

text \<open>
  Counterexample to claim C5 as stated: with WETH on a blacklist, the opportunity on
  WETH/USDC is unsafe by the specification's token-safety check, yet \<open>checkTokenSafety\<close>
  passes it and \<open>validateOpportunity\<close> accepts it.
\<close>

theorem blacklisted_token_is_accepted:
  "\<not> spec_token_safe [''WETH''] example_enhanced
   \<and> passed (checkTokenSafety example_enhanced)
   \<and> validateOpportunity default_config example_enhanced"
  by (simp add: spec_token_safe_def legs_def validateOpportunity_def validations_def
      checkProfitThreshold_def checkSlippageTolerance_def checkLiquidityRequirements_def
      checkTransactionValue_def checkTokenSafety_def example_enhanced_def
      example_opportunity_def example_analysis_def default_config_def js_ge_def Let_def)

section \<open>Metrics\<close>

lemma executeArbitrage_counters:
  "tradesExecuted (metrics s) = successfulTrades (metrics s)
   \<Longrightarrow> tradesExecuted (metrics (executeArbitrage cfg env e s))
       = successfulTrades (metrics (executeArbitrage cfg env e s))"
  by (cases "settled env") (simp_all add: executeArbitrage_def Let_def)

lemma processOpportunity_counters:
  "tradesExecuted (metrics s) = successfulTrades (metrics s)
   \<Longrightarrow> tradesExecuted (metrics (processOpportunity cfg env o' s))
       = successfulTrades (metrics (processOpportunity cfg env o' s))"
  by (simp add: processOpportunity_def Let_def executeArbitrage_counters split: sum.splits)

lemma engine_step_counters:
  "tradesExecuted (metrics s) = successfulTrades (metrics s)
   \<Longrightarrow> tradesExecuted (metrics (engine_step cfg c s))
       = successfulTrades (metrics (engine_step cfg c s))"
  by (cases c)
     (simp_all add: executeArbitrage_counters processOpportunity_counters
        cleanupExpiredOpportunities_def)

lemma engine_run_counters:
  "tradesExecuted (metrics s) = successfulTrades (metrics s)
   \<Longrightarrow> tradesExecuted (metrics (engine_run cfg cs s))
       = successfulTrades (metrics (engine_run cfg cs s))"
  by (induction cs arbitrary: s) (simp_all add: engine_step_counters)

lemma averageSuccessRate_equal_counters:
  "tradesExecuted (metrics s) = successfulTrades (metrics s)
   \<Longrightarrow> averageSuccessRate (getMetrics s)
       = (if tradesExecuted (metrics s) = 0 then Num 0 else Num 100)"
  by (simp add: getMetrics_def)

text \<open>
  Claim C9. In every state the engine reaches from its initial state, by any sequence
  of calls, \<open>tradesExecuted\<close> equals \<open>successfulTrades\<close>, and the \<open>averageSuccessRate\<close> that
  \<open>getMetrics\<close> reports is 0 when no trade was executed and 100 otherwise. The reason is
  in \<open>executeArbitrage\<close>: a confirmed settlement increments both counters by one, and a
  failed one leaves the metrics as they were.
\<close>

theorem executed_equals_successful:
  "tradesExecuted (metrics (engine_run cfg cs (new_ArbitrageEngine d)))
     = successfulTrades (metrics (engine_run cfg cs (new_ArbitrageEngine d)))
   \<and> averageSuccessRate (getMetrics (engine_run cfg cs (new_ArbitrageEngine d)))
     = (if tradesExecuted (metrics (engine_run cfg cs (new_ArbitrageEngine d))) = 0
        then Num 0 else Num 100)
   \<and> (case settled env of
         Confirmed h r \<Rightarrow>
           tradesExecuted (metrics (executeArbitrage cfg env e s)) = tradesExecuted (metrics s) + 1
         \<and> successfulTrades (metrics (executeArbitrage cfg env e s)) = successfulTrades (metrics s) + 1
       | _ \<Rightarrow> metrics (executeArbitrage cfg env e s) = metrics s)"
proof -
  have init: "tradesExecuted (metrics (new_ArbitrageEngine d))
      = successfulTrades (metrics (new_ArbitrageEngine d))"
    by (simp add: new_ArbitrageEngine_def)
  note inv = engine_run_counters [OF init, of cfg cs]
  have paths: "(case settled env of
         Confirmed h r \<Rightarrow>
           tradesExecuted (metrics (executeArbitrage cfg env e s)) = tradesExecuted (metrics s) + 1
         \<and> successfulTrades (metrics (executeArbitrage cfg env e s)) = successfulTrades (metrics s) + 1
       | _ \<Rightarrow> metrics (executeArbitrage cfg env e s) = metrics s)"
    by (cases "settled env") (simp_all add: executeArbitrage_def Let_def)
  from inv averageSuccessRate_equal_counters [OF inv] paths show ?thesis by simp
qed

section \<open>Detector: sizing\<close>


end
